theory Spec2Isabelle
  imports Main "HOL-Library.Word" "HOL-Library.Sublist"
begin

section \<open>JSON values as \<^verbatim>\<open>json.load\<close> builds them\<close>

text \<open>
  Both scripts keep the configuration as the untyped value \<^verbatim>\<open>json.load\<close> returns:
  \<^verbatim>\<open>None\<close>, a \<^verbatim>\<open>bool\<close>, an \<^verbatim>\<open>int\<close>, a \<^verbatim>\<open>float\<close> (a 64-bit pattern here, which the
  scripts never inspect), a \<^verbatim>\<open>str\<close>, a \<^verbatim>\<open>list\<close> or a \<^verbatim>\<open>dict\<close>. A dict is an association
  list in insertion order, the order \<^verbatim>\<open>json.dump\<close> writes the keys in; lookup takes the
  first binding of a key.
\<close>

datatype json =
    JNull
  | JBool bool
  | JInt int
  | JFloat "64 word"
  | JStr string
  | JArr "json list"
  | JObj "(string \<times> json) list"

text \<open>The exceptions the two scripts can raise; none of them is caught.\<close>

datatype error = FileNotFoundError | JSONDecodeError | KeyError string | TypeError

fun and_then :: "error + 'a \<Rightarrow> ('a \<Rightarrow> error + 'b) \<Rightarrow> error + 'b" where
  "and_then (Inl e) f = Inl e"
| "and_then (Inr x) f = f x"

text \<open>\<^verbatim>\<open>obj[key]\<close> for a \<^verbatim>\<open>str\<close> key: only a dict can be indexed by a string.\<close>

fun getitem :: "json \<Rightarrow> string \<Rightarrow> error + json" where
  "getitem (JObj kvs) k = (case map_of kvs k of None \<Rightarrow> Inl (KeyError k) | Some v \<Rightarrow> Inr v)"
| "getitem _ k = Inl TypeError"

text \<open>
  Storing under a key of a dict: an existing key keeps its position and gets the new
  value, a new key goes to the end.
\<close>

fun dict_set :: "(string \<times> json) list \<Rightarrow> string \<Rightarrow> json \<Rightarrow> (string \<times> json) list" where
  "dict_set [] k v = [(k, v)]"
| "dict_set ((k', v') # kvs) k v =
     (if k' = k then (k, v) # kvs else (k', v') # dict_set kvs k v)"

text \<open>\<^verbatim>\<open>obj[key] = v\<close> for a \<^verbatim>\<open>str\<close> key.\<close>

fun setitem :: "json \<Rightarrow> string \<Rightarrow> json \<Rightarrow> error + json" where
  "setitem (JObj kvs) k v = Inr (JObj (dict_set kvs k v))"
| "setitem _ k v = Inl TypeError"

text \<open>
  \<^verbatim>\<open>key in obj\<close> for a \<^verbatim>\<open>str\<close> key: key membership for a dict, element membership for a
  list, substring test for a string, \<^verbatim>\<open>TypeError\<close> for the values that are not iterable.
\<close>

fun contains :: "json \<Rightarrow> string \<Rightarrow> error + bool" where
  "contains (JObj kvs) k = Inr (k \<in> set (map fst kvs))"
| "contains (JArr xs) k = Inr (JStr k \<in> set xs)"
| "contains (JStr s) k = Inr (sublist k s)"
| "contains _ k = Inl TypeError"

section \<open>The constants of the two scripts\<close>

definition safe_tools :: "string list" where
  "safe_tools =
     [''bash'', ''str_replace_editor'', ''read'', ''write'', ''list_directory'',
      ''create_directory'', ''move_file'', ''search_files'', ''get_file_info'']"

definition yolo_tools :: "string list" where
  "yolo_tools =
     [''bash'', ''str_replace_editor'', ''read'', ''write'', ''list_directory'',
      ''create_directory'', ''move_file'', ''search_files'', ''get_file_info'',
      ''delete_file'', ''copy_file'', ''run_command'', ''execute_shell'']"

definition instance1_path :: string where
  "instance1_path = ''/Users/deankeesey/Workspace/tools/mcp/enhanced-iterm-mcp-instance-1''"

definition instance2_path :: string where
  "instance2_path = ''/Users/deankeesey/Workspace/tools/mcp/enhanced-iterm-mcp-instance-2''"

definition tool_list :: "string list \<Rightarrow> json" where
  "tool_list ts = JArr (map JStr ts)"

text \<open>The dict literal of \<^verbatim>\<open>setup-auto-approval.py\<close>, lines 23 to 37.\<close>

definition new_project :: "(string \<times> json) list" where
  "new_project =
     [(''allowedTools'', tool_list safe_tools),
      (''history'', JArr []),
      (''dontCrawlDirectory'', JBool False),
      (''mcpContextUris'', JArr []),
      (''mcpServers'', JObj []),
      (''enabledMcpjsonServers'', JArr []),
      (''disabledMcpjsonServers'', JArr []),
      (''enableAllProjectMcpServers'', JBool False),
      (''hasTrustDialogAccepted'', JBool True),
      (''ignorePatterns'', JArr []),
      (''projectOnboardingSeenCount'', JInt 0),
      (''hasClaudeMdExternalIncludesApproved'', JBool True),
      (''hasClaudeMdExternalIncludesWarningShown'', JBool True)]"

section \<open>The update loops\<close>

text \<open>
  \<^verbatim>\<open>config["projects"][path] = v\<close> and \<^verbatim>\<open>config["projects"][path][field] = v\<close>. Python
  mutates the inner dict through a reference; the model stores the changed inner value
  back into the value that holds it.
\<close>

definition assign_project :: "json \<Rightarrow> string \<Rightarrow> json \<Rightarrow> error + json" where
  "assign_project config path v =
     and_then (getitem config ''projects'') (\<lambda>projects.
     and_then (setitem projects path v) (\<lambda>projects'.
     setitem config ''projects'' projects'))"

definition assign_field :: "json \<Rightarrow> string \<Rightarrow> string \<Rightarrow> json \<Rightarrow> error + json" where
  "assign_field config path field v =
     and_then (getitem config ''projects'') (\<lambda>projects.
     and_then (getitem projects path) (\<lambda>project.
     and_then (setitem project field v) (\<lambda>project'.
     and_then (setitem projects path project') (\<lambda>projects'.
     setitem config ''projects'' projects'))))"

text \<open>The body of the loop of \<^verbatim>\<open>setup-auto-approval.py\<close>, lines 22 to 41.\<close>

definition standard_step :: "json \<Rightarrow> string \<Rightarrow> error + json" where
  "standard_step config path =
     and_then (getitem config ''projects'') (\<lambda>projects.
     and_then (contains projects path) (\<lambda>present.
       if \<not> present then assign_project config path (JObj new_project)
       else
         and_then (assign_field config path ''allowedTools'' (tool_list safe_tools)) (\<lambda>c1.
         and_then (assign_field c1 path ''hasTrustDialogAccepted'' (JBool True)) (\<lambda>c2.
         assign_field c2 path ''hasClaudeMdExternalIncludesApproved'' (JBool True)))))"

text \<open>The body of the loop of \<^verbatim>\<open>setup-yolo-mode.py\<close>, lines 24 to 30.\<close>

definition yolo_step :: "json \<Rightarrow> string \<Rightarrow> error + json" where
  "yolo_step config path =
     and_then (getitem config ''projects'') (\<lambda>projects.
     and_then (contains projects path) (\<lambda>present.
       if present then
         and_then (assign_field config path ''allowedTools'' (tool_list yolo_tools)) (\<lambda>c1.
         and_then (assign_field c1 path ''hasTrustDialogAccepted'' (JBool True)) (\<lambda>c2.
         and_then (assign_field c2 path ''hasClaudeMdExternalIncludesApproved'' (JBool True)) (\<lambda>c3.
         and_then (assign_field c3 path ''autoApproveAllTools'' (JBool True)) (\<lambda>c4.
         assign_field c4 path ''yoloMode'' (JBool True)))))
       else Inr config))"

text \<open>\<^verbatim>\<open>for path in [...]\<close>: the first exception ends the loop and the script.\<close>

fun for_each :: "('s \<Rightarrow> 'a \<Rightarrow> error + 's) \<Rightarrow> 'a list \<Rightarrow> 's \<Rightarrow> error + 's" where
  "for_each body [] s = Inr s"
| "for_each body (x # xs) s = and_then (body s x) (for_each body xs)"

definition standard_update :: "json \<Rightarrow> error + json" where
  "standard_update config = for_each standard_step [instance1_path, instance2_path] config"

definition yolo_update :: "json \<Rightarrow> error + json" where
  "yolo_update config = for_each yolo_step [instance1_path, instance2_path] config"

text \<open>Reading \<^verbatim>\<open>config["projects"][path]\<close> and \<^verbatim>\<open>config["projects"][path][field]\<close>.\<close>

definition project :: "json \<Rightarrow> string \<Rightarrow> error + json" where
  "project config path = and_then (getitem config ''projects'') (\<lambda>projects. getitem projects path)"

definition project_field :: "json \<Rightarrow> string \<Rightarrow> string \<Rightarrow> error + json" where
  "project_field config path field = and_then (project config path) (\<lambda>p. getitem p field)"

section \<open>Files, the shell and the two scripts\<close>

text \<open>
  The file system maps a path to the bytes of the file there. \<^verbatim>\<open>json.load\<close>,
  \<^verbatim>\<open>json.dump\<close> and the home directory that \<^verbatim>\<open>os.path.expanduser\<close> puts in place of
  \<^verbatim>\<open>~\<close> belong to the environment of a run.
\<close>

type_synonym fs = "string \<rightharpoonup> string"

record env =
  home :: string
  json_load :: "string \<Rightarrow> json option"
  json_dump :: "json \<Rightarrow> string"

definition config_path :: "env \<Rightarrow> string" where
  "config_path env = home env @ ''/.claude.json''"

text \<open>
  \<^verbatim>\<open>os.system\<close> hands the command line to the shell, which splits it into words at the
  spaces, since the scripts put no quotes around the paths. The model covers the command
  lines made of spaces and of characters the shell reads literally. \<^verbatim>\<open>cp\<close> with two
  operands copies the first file onto the second and replaces what was there; with a
  missing source, or with any other number of operands (the last one would have to be a
  directory, and this file system holds files only), it copies nothing and exits with 1.
\<close>

fun fields :: "string \<Rightarrow> string \<Rightarrow> string list" where
  "fields w [] = (if w = [] then [] else [w])"
| "fields w (c # cs) =
     (if c = CHR '' '' then (if w = [] then fields [] cs else w # fields [] cs)
      else fields (w @ [c]) cs)"

definition cp :: "string list \<Rightarrow> fs \<Rightarrow> nat \<times> fs" where
  "cp operands fs =
     (case operands of
        [src, dst] \<Rightarrow> (case fs src of Some bytes \<Rightarrow> (0, fs(dst \<mapsto> bytes)) | None \<Rightarrow> (1, fs))
      | _ \<Rightarrow> (1, fs))"

definition sh :: "string \<Rightarrow> fs \<Rightarrow> nat \<times> fs" where
  "sh cmd fs =
     (case fields [] cmd of
        [] \<Rightarrow> (0, fs)
      | c # operands \<Rightarrow> if c = ''cp'' then cp operands fs else (127, fs))"

text \<open>Neither script looks at what \<^verbatim>\<open>os.system\<close> returns.\<close>

definition os_system :: "string \<Rightarrow> fs \<Rightarrow> fs" where
  "os_system cmd fs = snd (sh cmd fs)"

text \<open>
  Both scripts are the same sequence around their update loop: read and parse, update in
  memory, copy the file to the backup, overwrite the file. The result is the exception
  that ended the run, if any, and the file system the run leaves. The lines printed at
  the end touch no file and are left out.
\<close>

definition patch_script :: "(json \<Rightarrow> error + json) \<Rightarrow> string \<Rightarrow> env \<Rightarrow> fs \<Rightarrow> error option \<times> fs" where
  "patch_script update ext env fs =
     (case fs (config_path env) of
        None \<Rightarrow> (Some FileNotFoundError, fs)
      | Some text \<Rightarrow>
          (case json_load env text of
             None \<Rightarrow> (Some JSONDecodeError, fs)
           | Some config \<Rightarrow>
               (case update config of
                  Inl e \<Rightarrow> (Some e, fs)
                | Inr config' \<Rightarrow>
                    (let fs1 = os_system (''cp '' @ config_path env @ '' '' @ config_path env @ ext) fs
                     in (None, fs1(config_path env \<mapsto> json_dump env config'))))))"

definition setup_auto_approval :: "env \<Rightarrow> fs \<Rightarrow> error option \<times> fs" where
  "setup_auto_approval = patch_script standard_update ''.backup''"

definition setup_yolo_mode :: "env \<Rightarrow> fs \<Rightarrow> error option \<times> fs" where
  "setup_yolo_mode = patch_script yolo_update ''.yolo-backup''"

text \<open>
  The characters of a path that the shell reads as themselves when the path stands in a
  command line without quotes.
\<close>

definition shell_literal :: "string \<Rightarrow> bool" where
  "shell_literal p =
     (set p \<subseteq> set ''ABCDEFGHIJKLMNOPQRSTUVWXYZabcdefghijklmnopqrstuvwxyz0123456789/._-'')"

text \<open>
  An environment for the worked examples below: the given home directory, a parser that
  knows two texts and rejects every other one, and a stand-in for the serializer (no
  example depends on the text it writes).
\<close>

definition sample_env :: "string \<Rightarrow> env" where
  \<open>sample_env h =
     \<lparr>home = h,
      json_load = map_of
        [(''{}'', JObj []),
         (''{"projects": {}}'', JObj [(''projects'', JObj [])])],
      json_dump = (\<lambda>doc. ''{}'')\<rparr>\<close>

text \<open>
  A configuration for the worked examples: a top-level key next to \<^verbatim>\<open>projects\<close>, an
  entry for the first fixed path with a history, no entry for the second fixed path, and
  an entry for another directory. The three definitions after it are that configuration
  as the permissive script, the standard script, and the permissive script followed by
  the standard one leave it.
\<close>

definition sample_config :: json where
  "sample_config =
     JObj [(''numStartups'', JInt 3),
       (''projects'', JObj
         [(instance1_path, JObj
            [(''allowedTools'', JArr [JStr ''bash'']),
             (''history'', JArr [JStr ''ls'']),
             (''hasTrustDialogAccepted'', JBool False)]),
          (''/tmp/other'', JObj [(''allowedTools'', JArr [])])])]"

definition sample_after_yolo :: json where
  "sample_after_yolo =
     JObj [(''numStartups'', JInt 3),
       (''projects'', JObj
         [(instance1_path, JObj
            [(''allowedTools'', tool_list yolo_tools),
             (''history'', JArr [JStr ''ls'']),
             (''hasTrustDialogAccepted'', JBool True),
             (''hasClaudeMdExternalIncludesApproved'', JBool True),
             (''autoApproveAllTools'', JBool True),
             (''yoloMode'', JBool True)]),
          (''/tmp/other'', JObj [(''allowedTools'', JArr [])])])]"

definition sample_after_standard :: json where
  "sample_after_standard =
     JObj [(''numStartups'', JInt 3),
       (''projects'', JObj
         [(instance1_path, JObj
            [(''allowedTools'', tool_list safe_tools),
             (''history'', JArr [JStr ''ls'']),
             (''hasTrustDialogAccepted'', JBool True),
             (''hasClaudeMdExternalIncludesApproved'', JBool True)]),
          (''/tmp/other'', JObj [(''allowedTools'', JArr [])]),
          (instance2_path, JObj new_project)])]"

definition sample_after_both :: json where
  "sample_after_both =
     JObj [(''numStartups'', JInt 3),
       (''projects'', JObj
         [(instance1_path, JObj
            [(''allowedTools'', tool_list safe_tools),
             (''history'', JArr [JStr ''ls'']),
             (''hasTrustDialogAccepted'', JBool True),
             (''hasClaudeMdExternalIncludesApproved'', JBool True),
             (''autoApproveAllTools'', JBool True),
             (''yoloMode'', JBool True)]),
          (''/tmp/other'', JObj [(''allowedTools'', JArr [])]),
          (instance2_path, JObj new_project)])]"

section \<open>Dicts as association lists\<close>

lemma map_of_dict_set: "map_of (dict_set kvs k v) = (map_of kvs)(k \<mapsto> v)"
  by (induction kvs) auto

lemma dict_set_same: "map_of kvs k = Some v \<Longrightarrow> dict_set kvs k v = kvs"
  by (induction kvs) (auto split: if_splits)

lemma dict_set_twice: "dict_set (dict_set kvs k v) k w = dict_set kvs k w"
  by (induction kvs) auto

lemma keys_dict_set: "fst ` set (dict_set kvs k v) = insert k (fst ` set kvs)"
  by (simp add: dom_map_of_conv_image_fst [symmetric] map_of_dict_set)

lemma key_mem: "(k \<in> fst ` set kvs) = (map_of kvs k \<noteq> None)"
  by (simp add: map_of_eq_None_iff)

lemma dict_set_new: "k \<notin> fst ` set kvs \<Longrightarrow> dict_set kvs k v = kvs @ [(k, v)]"
  by (induction kvs) auto

section \<open>One iteration of the standard loop\<close>

lemma instance_paths_distinct: "instance1_path \<noteq> instance2_path"
  by (simp add: instance1_path_def instance2_path_def)

lemma assign_field_obj:
  "map_of cfg ''projects'' = Some (JObj ps) \<Longrightarrow> map_of ps p = Some (JObj r) \<Longrightarrow>
   assign_field (JObj cfg) p f v =
     Inr (JObj (dict_set cfg ''projects'' (JObj (dict_set ps p (JObj (dict_set r f v))))))"
  by (simp add: assign_field_def)

lemma assign_field_put:
  "map_of ps p = Some (JObj r) \<Longrightarrow>
   assign_field (JObj (dict_set cfg ''projects'' (JObj ps))) p f v =
     Inr (JObj (dict_set cfg ''projects'' (JObj (dict_set ps p (JObj (dict_set r f v))))))"
  by (simp add: assign_field_def map_of_dict_set dict_set_twice)

lemma standard_step_absent:
  "map_of cfg ''projects'' = Some (JObj ps) \<Longrightarrow> map_of ps p = None \<Longrightarrow>
   standard_step (JObj cfg) p =
     Inr (JObj (dict_set cfg ''projects'' (JObj (dict_set ps p (JObj new_project)))))"
  by (simp add: standard_step_def assign_project_def key_mem)

lemma standard_step_present:
  "map_of cfg ''projects'' = Some (JObj ps) \<Longrightarrow> map_of ps p = Some (JObj r) \<Longrightarrow>
   standard_step (JObj cfg) p =
     Inr (JObj (dict_set cfg ''projects'' (JObj (dict_set ps p (JObj
       (dict_set (dict_set (dict_set r ''allowedTools'' (tool_list safe_tools))
          ''hasTrustDialogAccepted'' (JBool True))
          ''hasClaudeMdExternalIncludesApproved'' (JBool True)))))))"
  by (simp add: standard_step_def key_mem assign_field_obj assign_field_put map_of_dict_set dict_set_twice)

lemma standard_step_Inr:
  assumes "standard_step config p = Inr c'"
  obtains cfg ps where "config = JObj cfg" "map_of cfg ''projects'' = Some (JObj ps)"
    "map_of ps p = None \<or> (\<exists>r. map_of ps p = Some (JObj r))"
proof (cases config)
  case (JObj cfg)
  show ?thesis
  proof (cases "map_of cfg ''projects''")
    case None
    with JObj assms show ?thesis by (simp add: standard_step_def)
  next
    case (Some pv)
    show ?thesis
    proof (cases pv)
      case (JObj ps)
      show ?thesis
      proof (cases "map_of ps p")
        case None
        with JObj \<open>config = JObj cfg\<close> Some that show ?thesis by simp
      next
        case (Some a)
        with assms JObj \<open>config = JObj cfg\<close> \<open>map_of cfg ''projects'' = Some pv\<close> that show ?thesis
          by (cases a) (simp_all add: standard_step_def key_mem assign_field_def)
      qed
    qed (use assms \<open>config = JObj cfg\<close> Some in \<open>auto simp: standard_step_def assign_project_def assign_field_def split: if_splits\<close>)
  qed
qed (use assms in \<open>simp_all add: standard_step_def\<close>)

lemma standard_step_sets:
  assumes "standard_step config p = Inr c'"
  shows "project_field c' p ''allowedTools'' = Inr (tool_list safe_tools)"
    and "project_field c' p ''hasTrustDialogAccepted'' = Inr (JBool True)"
    and "project_field c' p ''hasClaudeMdExternalIncludesApproved'' = Inr (JBool True)"
proof -
  from assms obtain cfg ps where shape: "config = JObj cfg" "map_of cfg ''projects'' = Some (JObj ps)"
    "map_of ps p = None \<or> (\<exists>r. map_of ps p = Some (JObj r))"
    by (rule standard_step_Inr)
  from shape(3) assms shape(1,2)
  show "project_field c' p ''allowedTools'' = Inr (tool_list safe_tools)"
    and "project_field c' p ''hasTrustDialogAccepted'' = Inr (JBool True)"
    and "project_field c' p ''hasClaudeMdExternalIncludesApproved'' = Inr (JBool True)"
    by (auto simp: standard_step_absent standard_step_present project_field_def project_def
        map_of_dict_set new_project_def)
qed

lemma standard_step_new:
  assumes "standard_step config p = Inr c'" "project config p = Inl e"
  shows "project c' p = Inr (JObj new_project)"
proof -
  from assms(1) obtain cfg ps where shape: "config = JObj cfg" "map_of cfg ''projects'' = Some (JObj ps)"
    "map_of ps p = None \<or> (\<exists>r. map_of ps p = Some (JObj r))"
    by (rule standard_step_Inr)
  from shape(3) assms shape(1,2) show ?thesis
    by (auto simp: standard_step_absent project_def map_of_dict_set)
qed

lemma standard_step_keeps_fields:
  assumes "standard_step config p = Inr c'" "project config p = Inr r"
    "f \<noteq> ''allowedTools''" "f \<noteq> ''hasTrustDialogAccepted''"
    "f \<noteq> ''hasClaudeMdExternalIncludesApproved''"
  shows "project_field c' p f = project_field config p f"
proof -
  from assms(1) obtain cfg ps where shape: "config = JObj cfg" "map_of cfg ''projects'' = Some (JObj ps)"
    "map_of ps p = None \<or> (\<exists>r. map_of ps p = Some (JObj r))"
    by (rule standard_step_Inr)
  from shape(3) assms shape(1,2) show ?thesis
    by (auto simp: standard_step_present project_field_def project_def map_of_dict_set)
qed

lemma standard_step_other_project:
  assumes "standard_step config p = Inr c'" "q \<noteq> p"
  shows "project c' q = project config q"
proof -
  from assms(1) obtain cfg ps where shape: "config = JObj cfg" "map_of cfg ''projects'' = Some (JObj ps)"
    "map_of ps p = None \<or> (\<exists>r. map_of ps p = Some (JObj r))"
    by (rule standard_step_Inr)
  from shape(3) assms shape(1,2) show ?thesis
    by (auto simp: standard_step_absent standard_step_present project_def map_of_dict_set)
qed

lemma standard_step_other_key:
  assumes "standard_step config p = Inr c'" "k \<noteq> ''projects''"
  shows "getitem c' k = getitem config k"
proof -
  from assms(1) obtain cfg ps where shape: "config = JObj cfg" "map_of cfg ''projects'' = Some (JObj ps)"
    "map_of ps p = None \<or> (\<exists>r. map_of ps p = Some (JObj r))"
    by (rule standard_step_Inr)
  from shape(3) assms shape(1,2) show ?thesis
    by (auto simp: standard_step_absent standard_step_present map_of_dict_set)
qed

lemma standard_step_fixpoint:
  assumes "project_field c p ''allowedTools'' = Inr (tool_list safe_tools)"
    and "project_field c p ''hasTrustDialogAccepted'' = Inr (JBool True)"
    and "project_field c p ''hasClaudeMdExternalIncludesApproved'' = Inr (JBool True)"
  shows "standard_step c p = Inr c"
proof -
  from assms(1) obtain cfg where c: "c = JObj cfg"
    by (cases c) (simp_all add: project_field_def project_def)
  from assms(1) c obtain pv where pv: "map_of cfg ''projects'' = Some pv"
    by (cases "map_of cfg ''projects''") (simp_all add: project_field_def project_def)
  from assms(1) c pv obtain ps where ps: "pv = JObj ps"
    by (cases pv) (simp_all add: project_field_def project_def)
  from assms(1) c pv ps obtain rv where rv: "map_of ps p = Some rv"
    by (cases "map_of ps p") (simp_all add: project_field_def project_def)
  from assms(1) c pv ps rv obtain r where r: "rv = JObj r"
    by (cases rv) (simp_all add: project_field_def project_def)
  from assms c pv ps rv r have
    "map_of r ''allowedTools'' = Some (tool_list safe_tools)"
    "map_of r ''hasTrustDialogAccepted'' = Some (JBool True)"
    "map_of r ''hasClaudeMdExternalIncludesApproved'' = Some (JBool True)"
    by (simp_all add: project_field_def project_def split: option.splits)
  with c pv ps rv r show ?thesis
    by (simp add: standard_step_present dict_set_same)
qed

section \<open>One iteration of the permissive loop\<close>

lemma and_then_Inr: "and_then m f = Inr y \<Longrightarrow> \<exists>x. m = Inr x \<and> f x = Inr y"
  by (cases m) simp_all

lemma getitem_Inr: "getitem j k = Inr v \<Longrightarrow> \<exists>kvs. j = JObj kvs \<and> map_of kvs k = Some v"
  by (cases j) (simp_all split: option.splits)

lemma setitem_Inr: "setitem j k v = Inr j' \<Longrightarrow> \<exists>kvs. j = JObj kvs \<and> j' = JObj (dict_set kvs k v)"
  by (cases j) auto

lemma assign_field_Inr:
  assumes "assign_field config p f v = Inr c'"
  shows "\<exists>cfg ps r. config = JObj cfg \<and> map_of cfg ''projects'' = Some (JObj ps) \<and>
     map_of ps p = Some (JObj r)"
proof -
  from assms obtain projects where a: "getitem config ''projects'' = Inr projects"
    and "and_then (getitem projects p) (\<lambda>project.
       and_then (setitem project f v) (\<lambda>project'.
       and_then (setitem projects p project') (\<lambda>projects'.
       setitem config ''projects'' projects'))) = Inr c'"
    unfolding assign_field_def by (blast dest: and_then_Inr)
  then obtain pr where b: "getitem projects p = Inr pr"
    and "and_then (setitem pr f v) (\<lambda>project'.
       and_then (setitem projects p project') (\<lambda>projects'.
       setitem config ''projects'' projects')) = Inr c'"
    by (blast dest: and_then_Inr)
  then obtain pr' where c: "setitem pr f v = Inr pr'"
    by (blast dest: and_then_Inr)
  from a b c show ?thesis
    by (blast dest: getitem_Inr setitem_Inr)
qed

lemma yolo_step_skip:
  "getitem config ''projects'' = Inr projects \<Longrightarrow> contains projects p = Inr False \<Longrightarrow>
   yolo_step config p = Inr config"
  by (simp add: yolo_step_def)

lemma yolo_step_present:
  "map_of cfg ''projects'' = Some (JObj ps) \<Longrightarrow> map_of ps p = Some (JObj r) \<Longrightarrow>
   yolo_step (JObj cfg) p =
     Inr (JObj (dict_set cfg ''projects'' (JObj (dict_set ps p (JObj
       (dict_set (dict_set (dict_set (dict_set (dict_set r
          ''allowedTools'' (tool_list yolo_tools))
          ''hasTrustDialogAccepted'' (JBool True))
          ''hasClaudeMdExternalIncludesApproved'' (JBool True))
          ''autoApproveAllTools'' (JBool True))
          ''yoloMode'' (JBool True)))))))"
  by (simp add: yolo_step_def key_mem assign_field_obj assign_field_put map_of_dict_set dict_set_twice)

lemma yolo_step_Inr:
  assumes "yolo_step config p = Inr c'"
  obtains (skipped) projects where "getitem config ''projects'' = Inr projects"
      "contains projects p = Inr False" "c' = config"
  | (updated) cfg ps r where "config = JObj cfg" "map_of cfg ''projects'' = Some (JObj ps)"
      "map_of ps p = Some (JObj r)"
proof -
  from assms obtain projects where a: "getitem config ''projects'' = Inr projects"
    and "and_then (contains projects p) (\<lambda>present.
       if present then
         and_then (assign_field config p ''allowedTools'' (tool_list yolo_tools)) (\<lambda>c1.
         and_then (assign_field c1 p ''hasTrustDialogAccepted'' (JBool True)) (\<lambda>c2.
         and_then (assign_field c2 p ''hasClaudeMdExternalIncludesApproved'' (JBool True)) (\<lambda>c3.
         and_then (assign_field c3 p ''autoApproveAllTools'' (JBool True)) (\<lambda>c4.
         assign_field c4 p ''yoloMode'' (JBool True)))))
       else Inr config) = Inr c'"
    unfolding yolo_step_def by (blast dest: and_then_Inr)
  then obtain present where b: "contains projects p = Inr present"
    and c: "(if present then
         and_then (assign_field config p ''allowedTools'' (tool_list yolo_tools)) (\<lambda>c1.
         and_then (assign_field c1 p ''hasTrustDialogAccepted'' (JBool True)) (\<lambda>c2.
         and_then (assign_field c2 p ''hasClaudeMdExternalIncludesApproved'' (JBool True)) (\<lambda>c3.
         and_then (assign_field c3 p ''autoApproveAllTools'' (JBool True)) (\<lambda>c4.
         assign_field c4 p ''yoloMode'' (JBool True)))))
       else Inr config) = Inr c'"
    by (blast dest: and_then_Inr)
  show ?thesis
  proof (cases present)
    case False
    with a b c show ?thesis by (intro skipped) simp_all
  next
    case True
    with c obtain c1 where "assign_field config p ''allowedTools'' (tool_list yolo_tools) = Inr c1"
      by (auto dest: and_then_Inr)
    then obtain cfg ps r where "config = JObj cfg" "map_of cfg ''projects'' = Some (JObj ps)"
      "map_of ps p = Some (JObj r)"
      by (blast dest: assign_field_Inr)
    then show ?thesis by (rule updated)
  qed
qed

lemma project_Inr:
  "project config p = Inr r \<Longrightarrow>
   \<exists>cfg ps. config = JObj cfg \<and> map_of cfg ''projects'' = Some (JObj ps) \<and> map_of ps p = Some r"
  unfolding project_def by (blast dest: and_then_Inr getitem_Inr)

lemma yolo_step_sets:
  assumes "yolo_step config p = Inr c'" "project config p = Inr r"
  shows "project_field c' p ''allowedTools'' = Inr (tool_list yolo_tools)
    \<and> project_field c' p ''hasTrustDialogAccepted'' = Inr (JBool True)
    \<and> project_field c' p ''hasClaudeMdExternalIncludesApproved'' = Inr (JBool True)
    \<and> project_field c' p ''autoApproveAllTools'' = Inr (JBool True)
    \<and> project_field c' p ''yoloMode'' = Inr (JBool True)"
  using assms(1)
proof (cases rule: yolo_step_Inr)
  case (skipped projects)
  with assms(2) show ?thesis
    by (auto dest!: project_Inr simp: key_mem)
next
  case (updated cfg ps r)
  with assms(1) show ?thesis
    by (auto simp: yolo_step_present project_field_def project_def map_of_dict_set)
qed

lemma yolo_step_absent:
  assumes "yolo_step config p = Inr c'" "project config p = Inl e"
  shows "c' = config"
  using assms(1)
proof (cases rule: yolo_step_Inr)
  case (updated cfg ps r)
  with assms(2) show ?thesis by (simp add: project_def)
qed

lemma yolo_step_other_project:
  assumes "yolo_step config p = Inr c'" "q \<noteq> p"
  shows "project c' q = project config q"
  using assms(1)
proof (cases rule: yolo_step_Inr)
  case (updated cfg ps r)
  with assms show ?thesis
    by (auto simp: yolo_step_present project_def map_of_dict_set)
qed simp

section \<open>The copy command and the scripts\<close>

lemma shell_literal_no_space: "shell_literal p \<Longrightarrow> CHR '' '' \<notin> set p"
  by (auto simp: shell_literal_def)

lemma fields_word:
  "CHR '' '' \<notin> set a \<Longrightarrow>
   fields w (a @ CHR '' '' # rest) = (if w @ a = [] then fields [] rest else (w @ a) # fields [] rest)"
  by (induction a arbitrary: w) auto

lemma fields_last: "CHR '' '' \<notin> set a \<Longrightarrow> fields w a = (if w @ a = [] then [] else [w @ a])"
  by (induction a arbitrary: w) auto

lemma cp_command_fields:
  assumes "CHR '' '' \<notin> set p" "CHR '' '' \<notin> set ext" "p \<noteq> []"
  shows "fields [] (''cp '' @ p @ '' '' @ p @ ext) = [''cp'', p, p @ ext]"
proof -
  have "fields [] (''cp '' @ p @ '' '' @ p @ ext) = ''cp'' # fields [] (p @ CHR '' '' # (p @ ext))"
    by simp
  also have "\<dots> = ''cp'' # p # fields [] (p @ ext)"
    using assms by (simp add: fields_word)
  also have "\<dots> = [''cp'', p, p @ ext]"
    using assms by (simp add: fields_last)
  finally show ?thesis .
qed

lemma patch_script_backup:
  assumes "CHR '' '' \<notin> set (home env)" "CHR '' '' \<notin> set ext"
    and "fs (config_path env) = Some text" "json_load env text = Some config"
    and "update config = Inr config'"
  shows "patch_script update ext env fs =
    (None, fs(config_path env @ ext \<mapsto> text, config_path env \<mapsto> json_dump env config'))"
proof -
  have p: "CHR '' '' \<notin> set (config_path env)" "config_path env \<noteq> []"
    using assms(1) by (simp_all add: config_path_def)
  have "os_system (''cp '' @ config_path env @ '' '' @ config_path env @ ext) fs
      = fs(config_path env @ ext \<mapsto> text)"
    using assms(2,3) p unfolding os_system_def sh_def
    by (simp add: cp_command_fields cp_def del: append.simps append_Cons)
  with assms(3-5) show ?thesis
    by (simp add: patch_script_def del: append.simps append_Cons)
qed

lemma patch_script_completes:
  "fs (config_path env) = Some text \<Longrightarrow> json_load env text = Some config \<Longrightarrow>
   update config = Inr config' \<Longrightarrow>
   patch_script update ext env fs =
     (None, (os_system (''cp '' @ config_path env @ '' '' @ config_path env @ ext) fs)
        (config_path env \<mapsto> json_dump env config'))"
  by (simp add: patch_script_def del: append.simps append_Cons)

lemma patch_script_raises:
  "fs (config_path env) = Some text \<Longrightarrow> json_load env text = Some config \<Longrightarrow>
   update config = Inl e \<Longrightarrow> patch_script update ext env fs = (Some e, fs)"
  by (simp add: patch_script_def)

lemma patch_script_writes:
  assumes "patch_script update ext env fs = (None, fs')"
  shows "\<exists>text config config'. fs (config_path env) = Some text \<and> json_load env text = Some config
    \<and> update config = Inr config' \<and> fs' (config_path env) = Some (json_dump env config')"
  using assms by (auto simp: patch_script_def split: option.splits sum.splits)

section \<open>The two loops as a whole\<close>

lemma for_each_two:
  assumes "for_each body [x, y] s = Inr s'"
  shows "\<exists>s1. body s x = Inr s1 \<and> body s1 y = Inr s'"
proof (cases "body s x")
  case (Inl e)
  with assms show ?thesis by simp
next
  case (Inr s1)
  with assms show ?thesis by (cases "body s1 y") simp_all
qed

lemma standard_update_steps:
  "standard_update config = Inr c' \<Longrightarrow>
   \<exists>c1. standard_step config instance1_path = Inr c1 \<and> standard_step c1 instance2_path = Inr c'"
  unfolding standard_update_def by (rule for_each_two)

lemma yolo_update_steps:
  "yolo_update config = Inr c' \<Longrightarrow>
   \<exists>c1. yolo_step config instance1_path = Inr c1 \<and> yolo_step c1 instance2_path = Inr c'"
  unfolding yolo_update_def by (rule for_each_two)

lemma project_field_cong: "project c' p = project c p \<Longrightarrow> project_field c' p f = project_field c p f"
  by (simp add: project_field_def)

lemma project_field_Inr: "project_field c p f = Inr v \<Longrightarrow> \<exists>r. project c p = Inr r"
  unfolding project_field_def by (blast dest: and_then_Inr)

lemma standard_update_sets:
  assumes "standard_update config = Inr c'" "p = instance1_path \<or> p = instance2_path"
  shows "project_field c' p ''allowedTools'' = Inr (tool_list safe_tools)
    \<and> project_field c' p ''hasTrustDialogAccepted'' = Inr (JBool True)
    \<and> project_field c' p ''hasClaudeMdExternalIncludesApproved'' = Inr (JBool True)"
proof -
  from assms(1) obtain c1 where s1: "standard_step config instance1_path = Inr c1"
    and s2: "standard_step c1 instance2_path = Inr c'"
    by (blast dest: standard_update_steps)
  from assms(2) show ?thesis
  proof
    assume p: "p = instance1_path"
    have "project c' instance1_path = project c1 instance1_path"
      using s2 instance_paths_distinct by (rule standard_step_other_project)
    then show ?thesis
      using standard_step_sets [OF s1] p by (simp add: project_field_def)
  next
    assume "p = instance2_path"
    then show ?thesis using standard_step_sets [OF s2] by simp
  qed
qed

lemma standard_update_keeps_fields:
  assumes "standard_update config = Inr c'" "p = instance1_path \<or> p = instance2_path"
    and "project config p = Inr r"
    and "f \<noteq> ''allowedTools''" "f \<noteq> ''hasTrustDialogAccepted''"
    and "f \<noteq> ''hasClaudeMdExternalIncludesApproved''"
  shows "project_field c' p f = project_field config p f"
proof -
  from assms(1) obtain c1 where s1: "standard_step config instance1_path = Inr c1"
    and s2: "standard_step c1 instance2_path = Inr c'"
    by (blast dest: standard_update_steps)
  from assms(2) show ?thesis
  proof
    assume p: "p = instance1_path"
    have "project_field c' p f = project_field c1 p f"
      unfolding p using s2 instance_paths_distinct
      by (intro project_field_cong standard_step_other_project)
    also have "\<dots> = project_field config p f"
      using s1 assms(3-6) unfolding p by (rule standard_step_keeps_fields)
    finally show ?thesis .
  next
    assume p: "p = instance2_path"
    have "project c1 p = project config p"
      unfolding p using s1 instance_paths_distinct [symmetric] by (rule standard_step_other_project)
    with assms(3) have r: "project c1 p = Inr r" by simp
    have "project_field c' p f = project_field c1 p f"
      using s2 r assms(4-6) unfolding p by (rule standard_step_keeps_fields)
    also have "\<dots> = project_field config p f"
      using \<open>project c1 p = project config p\<close> by (rule project_field_cong)
    finally show ?thesis .
  qed
qed

lemma standard_update_other_project:
  assumes "standard_update config = Inr c'" "q \<noteq> instance1_path" "q \<noteq> instance2_path"
  shows "project c' q = project config q"
proof -
  from assms(1) obtain c1 where s1: "standard_step config instance1_path = Inr c1"
    and s2: "standard_step c1 instance2_path = Inr c'"
    by (blast dest: standard_update_steps)
  show ?thesis
    using standard_step_other_project [OF s1 assms(2)] standard_step_other_project [OF s2 assms(3)]
    by simp
qed

lemma standard_update_other_key:
  assumes "standard_update config = Inr c'" "k \<noteq> ''projects''"
  shows "getitem c' k = getitem config k"
proof -
  from assms(1) obtain c1 where s1: "standard_step config instance1_path = Inr c1"
    and s2: "standard_step c1 instance2_path = Inr c'"
    by (blast dest: standard_update_steps)
  show ?thesis
    using standard_step_other_key [OF s1 assms(2)] standard_step_other_key [OF s2 assms(2)]
    by simp
qed

lemma yolo_update_sets:
  assumes "yolo_update config = Inr c'" "p = instance1_path \<or> p = instance2_path"
    and "project config p = Inr r"
  shows "project_field c' p ''allowedTools'' = Inr (tool_list yolo_tools)
    \<and> project_field c' p ''hasTrustDialogAccepted'' = Inr (JBool True)
    \<and> project_field c' p ''hasClaudeMdExternalIncludesApproved'' = Inr (JBool True)
    \<and> project_field c' p ''autoApproveAllTools'' = Inr (JBool True)
    \<and> project_field c' p ''yoloMode'' = Inr (JBool True)"
proof -
  from assms(1) obtain c1 where s1: "yolo_step config instance1_path = Inr c1"
    and s2: "yolo_step c1 instance2_path = Inr c'"
    by (blast dest: yolo_update_steps)
  from assms(2) show ?thesis
  proof
    assume p: "p = instance1_path"
    have "project c' instance1_path = project c1 instance1_path"
      using s2 instance_paths_distinct by (rule yolo_step_other_project)
    then show ?thesis
      using yolo_step_sets [OF s1] assms(3) p by (simp add: project_field_def)
  next
    assume p: "p = instance2_path"
    have "project c1 p = project config p"
      unfolding p using s1 instance_paths_distinct [symmetric] by (rule yolo_step_other_project)
    with assms(3) have "project c1 instance2_path = Inr r" by (simp add: p)
    with s2 show ?thesis unfolding p by (rule yolo_step_sets)
  qed
qed

lemma yolo_update_absent:
  assumes "yolo_update config = Inr c'" "p = instance1_path \<or> p = instance2_path"
    and "project config p = Inl e"
  shows "project c' p = Inl e"
proof -
  from assms(1) obtain c1 where s1: "yolo_step config instance1_path = Inr c1"
    and s2: "yolo_step c1 instance2_path = Inr c'"
    by (blast dest: yolo_update_steps)
  from assms(2) show ?thesis
  proof
    assume p: "p = instance1_path"
    have "project c' instance1_path = project c1 instance1_path"
      using s2 instance_paths_distinct by (rule yolo_step_other_project)
    moreover have "c1 = config" using s1 assms(3) unfolding p by (rule yolo_step_absent)
    ultimately show ?thesis using assms(3) p by simp
  next
    assume p: "p = instance2_path"
    have "project c1 p = project config p"
      unfolding p using s1 instance_paths_distinct [symmetric] by (rule yolo_step_other_project)
    with assms(3) have "project c1 instance2_path = Inl e" by (simp add: p)
    with s2 have "c' = c1" by (rule yolo_step_absent)
    with \<open>project c1 instance2_path = Inl e\<close> p show ?thesis by simp
  qed
qed

text \<open>
  On a configuration of the expected shape (\<^verbatim>\<open>projects\<close> a dict, and each fixed path
  either missing from it or mapped to a dict) the standard loop runs to completion.
\<close>

lemma standard_step_completes:
  assumes "map_of cfg ''projects'' = Some (JObj ps)"
    and "map_of ps p = None \<or> (\<exists>r. map_of ps p = Some (JObj r))"
  shows "\<exists>v. standard_step (JObj cfg) p = Inr (JObj (dict_set cfg ''projects'' (JObj (dict_set ps p v))))"
  using assms(2)
proof
  assume "map_of ps p = None"
  with assms(1) show ?thesis by (auto simp: standard_step_absent)
next
  assume "\<exists>r. map_of ps p = Some (JObj r)"
  with assms(1) show ?thesis by (auto simp: standard_step_present)
qed

lemma standard_update_completes:
  assumes "map_of cfg ''projects'' = Some (JObj ps)"
    and "map_of ps instance1_path = None \<or> (\<exists>r. map_of ps instance1_path = Some (JObj r))"
    and "map_of ps instance2_path = None \<or> (\<exists>r. map_of ps instance2_path = Some (JObj r))"
  shows "\<exists>c'. standard_update (JObj cfg) = Inr c'"
proof -
  from assms(1,2) obtain v where
    s1: "standard_step (JObj cfg) instance1_path =
      Inr (JObj (dict_set cfg ''projects'' (JObj (dict_set ps instance1_path v))))"
    by (blast dest: standard_step_completes)
  have "map_of (dict_set cfg ''projects'' (JObj (dict_set ps instance1_path v))) ''projects''
      = Some (JObj (dict_set ps instance1_path v))"
    by (simp add: map_of_dict_set)
  moreover have "map_of (dict_set ps instance1_path v) instance2_path = map_of ps instance2_path"
    using instance_paths_distinct by (simp add: map_of_dict_set)
  ultimately obtain w where
    "standard_step (JObj (dict_set cfg ''projects'' (JObj (dict_set ps instance1_path v)))) instance2_path =
      Inr (JObj (dict_set (dict_set cfg ''projects'' (JObj (dict_set ps instance1_path v))) ''projects''
        (JObj (dict_set (dict_set ps instance1_path v) instance2_path w))))"
    using assms(3) standard_step_completes by metis
  with s1 show ?thesis by (simp add: standard_update_def)
qed

section \<open>Worked examples\<close>

lemma standard_update_sample: "standard_update sample_config = Inr sample_after_standard"
  by (simp add: standard_update_def standard_step_def assign_field_def assign_project_def
      sample_config_def sample_after_standard_def instance1_path_def instance2_path_def)

lemma yolo_update_sample: "yolo_update sample_config = Inr sample_after_yolo"
  by (simp add: yolo_update_def yolo_step_def assign_field_def
      sample_config_def sample_after_yolo_def instance1_path_def instance2_path_def)

lemma standard_update_sample_after_yolo: "standard_update sample_after_yolo = Inr sample_after_both"
  by (simp add: standard_update_def standard_step_def assign_field_def assign_project_def
      sample_after_yolo_def sample_after_both_def instance1_path_def instance2_path_def)

lemma project_sample: "project sample_config instance1_path = Inr (JObj
            [(''allowedTools'', JArr [JStr ''bash'']),
             (''history'', JArr [JStr ''ls'']),
             (''hasTrustDialogAccepted'', JBool False)])"
  "project sample_config instance2_path = Inl (KeyError instance2_path)"
  by (simp_all add: project_def sample_config_def instance1_path_def instance2_path_def)

lemma sample_env_simps:
  "home (sample_env h) = h"
  "config_path (sample_env h) = h @ ''/.claude.json''"
  "json_load (sample_env h) ''{}'' = Some (JObj [])"
  "json_load (sample_env h) ''not json'' = None"
  by (simp_all add: sample_env_def config_path_def)

lemma sample_env_load_projects:
  \<open>json_load (sample_env h) ''{"projects": {}}'' = Some (JObj [(''projects'', JObj [])])\<close>
  by (simp add: sample_env_def)

section \<open>The claims\<close>

text \<open>
  C1, as amended. After the standard loop has run to completion, each of the two fixed
  paths has a project record whose \<^verbatim>\<open>allowedTools\<close> is the standard list and whose two
  trust flags are true. After the permissive loop has run to completion, the same holds,
  with the permissive list, for each fixed path that had an entry in the input; the
  permissive loop is guarded by \<^verbatim>\<open>if path in config["projects"]\<close> and creates nothing.
\<close>

theorem fixed_paths_approved:
  assumes "p = instance1_path \<or> p = instance2_path"
  shows "(standard_update config = Inr c1 \<longrightarrow>
            project_field c1 p ''allowedTools'' = Inr (tool_list safe_tools)
          \<and> project_field c1 p ''hasTrustDialogAccepted'' = Inr (JBool True)
          \<and> project_field c1 p ''hasClaudeMdExternalIncludesApproved'' = Inr (JBool True))
       \<and> (yolo_update config = Inr c2 \<longrightarrow> project config p = Inr r \<longrightarrow>
            project_field c2 p ''allowedTools'' = Inr (tool_list yolo_tools)
          \<and> project_field c2 p ''hasTrustDialogAccepted'' = Inr (JBool True)
          \<and> project_field c2 p ''hasClaudeMdExternalIncludesApproved'' = Inr (JBool True))"
  using assms standard_update_sets [of config c1 p] yolo_update_sets [of config c2 p r]
  by blast

theorem fixed_paths_approved_witness:
  "standard_update sample_config = Inr sample_after_standard
   \<and> project_field sample_after_standard instance1_path ''allowedTools'' = Inr (tool_list safe_tools)
   \<and> project_field sample_after_standard instance1_path ''hasTrustDialogAccepted'' = Inr (JBool True)
   \<and> project_field sample_after_standard instance1_path ''hasClaudeMdExternalIncludesApproved'' = Inr (JBool True)
   \<and> yolo_update sample_config = Inr sample_after_yolo
   \<and> project_field sample_after_yolo instance1_path ''allowedTools'' = Inr (tool_list yolo_tools)
   \<and> project_field sample_after_yolo instance1_path ''hasTrustDialogAccepted'' = Inr (JBool True)
   \<and> project_field sample_after_yolo instance1_path ''hasClaudeMdExternalIncludesApproved'' = Inr (JBool True)"
  using fixed_paths_approved [of instance1_path sample_config sample_after_standard
      sample_after_yolo "JObj [(''allowedTools'', JArr [JStr ''bash'']),
             (''history'', JArr [JStr ''ls'']),
             (''hasTrustDialogAccepted'', JBool False)]"]
    standard_update_sample yolo_update_sample project_sample(1)
  by simp

text \<open>
  The claim as stated fails for the permissive script: on \<^verbatim>\<open>{"projects": {}}\<close> it runs to
  completion and the first fixed path still has no record.
\<close>

theorem yolo_mode_creates_no_entry:
  "yolo_update (JObj [(''projects'', JObj [])]) = Inr (JObj [(''projects'', JObj [])])
   \<and> project (JObj [(''projects'', JObj [])]) instance1_path = Inl (KeyError instance1_path)
   \<and> project_field (JObj [(''projects'', JObj [])]) instance1_path ''allowedTools''
       \<noteq> Inr (tool_list yolo_tools)"
  by (simp add: yolo_update_def yolo_step_def project_def project_field_def)


lemma new_project_fields:
  "getitem (JObj new_project) ''allowedTools'' = Inr (tool_list safe_tools)"
  "getitem (JObj new_project) ''hasTrustDialogAccepted'' = Inr (JBool True)"
  "getitem (JObj new_project) ''hasClaudeMdExternalIncludesApproved'' = Inr (JBool True)"
  "getitem (JObj new_project) ''history'' = Inr (JArr [])"
  "getitem (JObj new_project) ''ignorePatterns'' = Inr (JArr [])"
  "getitem (JObj new_project) ''projectOnboardingSeenCount'' = Inr (JInt 0)"
  by (simp_all add: new_project_def)

lemma standard_update_absent_both:
  assumes "map_of cfg ''projects'' = Some (JObj ps)"
    and "instance1_path \<notin> fst ` set ps" "instance2_path \<notin> fst ` set ps"
  shows "standard_update (JObj cfg) =
    Inr (JObj (dict_set cfg ''projects'' (JObj
      (ps @ [(instance1_path, JObj new_project), (instance2_path, JObj new_project)]))))"
proof -
  let ?ps1 = "ps @ [(instance1_path, JObj new_project)]"
  have n1: "map_of ps instance1_path = None" and n2: "map_of ps instance2_path = None"
    using assms(2,3) by (simp_all add: map_of_eq_None_iff)
  have s1: "standard_step (JObj cfg) instance1_path = Inr (JObj (dict_set cfg ''projects'' (JObj ?ps1)))"
    using assms(1) n1 assms(2) by (simp add: standard_step_absent dict_set_new)
  have "map_of ?ps1 instance2_path = None"
    using n2 instance_paths_distinct by simp
  moreover have "instance2_path \<notin> fst ` set ?ps1"
    using assms(3) instance_paths_distinct by auto
  moreover have "map_of (dict_set cfg ''projects'' (JObj ?ps1)) ''projects'' = Some (JObj ?ps1)"
    by (simp add: map_of_dict_set)
  ultimately have s2: "standard_step (JObj (dict_set cfg ''projects'' (JObj ?ps1))) instance2_path =
      Inr (JObj (dict_set cfg ''projects'' (JObj (?ps1 @ [(instance2_path, JObj new_project)]))))"
    by (simp add: standard_step_absent dict_set_new dict_set_twice)
  show ?thesis
    unfolding standard_update_def using s1 s2 by simp
qed

text \<open>
  C2. When the \<^verbatim>\<open>projects\<close> dict has neither fixed path as a key, the standard loop runs
  to completion and appends both paths, in order, each with the new record: its
  \<^verbatim>\<open>allowedTools\<close> is the standard list of 9 names, its two trust flags are true, its
  history and ignore patterns are empty and its onboarding counter is 0. On
  \<^verbatim>\<open>{"projects": {}}\<close> the result has exactly the two fixed paths as keys.
\<close>

theorem standard_update_creates_both:
  assumes "map_of cfg ''projects'' = Some (JObj ps)"
    and "instance1_path \<notin> fst ` set ps" "instance2_path \<notin> fst ` set ps"
  shows "\<exists>c'. standard_update (JObj cfg) = Inr c'
      \<and> c' = JObj (dict_set cfg ''projects'' (JObj
            (ps @ [(instance1_path, JObj new_project), (instance2_path, JObj new_project)])))
      \<and> project c' instance1_path = Inr (JObj new_project)
      \<and> project c' instance2_path = Inr (JObj new_project)
      \<and> getitem (JObj new_project) ''allowedTools'' = Inr (tool_list safe_tools)
      \<and> length safe_tools = 9
      \<and> getitem (JObj new_project) ''hasTrustDialogAccepted'' = Inr (JBool True)
      \<and> getitem (JObj new_project) ''hasClaudeMdExternalIncludesApproved'' = Inr (JBool True)
      \<and> getitem (JObj new_project) ''history'' = Inr (JArr [])
      \<and> getitem (JObj new_project) ''ignorePatterns'' = Inr (JArr [])
      \<and> getitem (JObj new_project) ''projectOnboardingSeenCount'' = Inr (JInt 0)"
proof -
  let ?c = "JObj (dict_set cfg ''projects'' (JObj
            (ps @ [(instance1_path, JObj new_project), (instance2_path, JObj new_project)])))"
  have u: "standard_update (JObj cfg) = Inr ?c"
    using assms by (rule standard_update_absent_both)
  have n1: "map_of ps instance1_path = None" and n2: "map_of ps instance2_path = None"
    using assms(2,3) by (simp_all add: map_of_eq_None_iff)
  have p1: "project ?c instance1_path = Inr (JObj new_project)"
    using n1 instance_paths_distinct by (simp add: project_def map_of_dict_set map_add_def)
  have p2: "project ?c instance2_path = Inr (JObj new_project)"
    using n2 by (simp add: project_def map_of_dict_set map_add_def)
  have "length safe_tools = 9" by (simp add: safe_tools_def)
  with u p1 p2 new_project_fields show ?thesis by simp
qed

theorem standard_update_empty_projects:
  "standard_update (JObj [(''projects'', JObj [])]) =
     Inr (JObj [(''projects'', JObj
       [(instance1_path, JObj new_project), (instance2_path, JObj new_project)])])
   \<and> map fst [(instance1_path, JObj new_project), (instance2_path, JObj new_project)]
       = [instance1_path, instance2_path]
   \<and> getitem (JObj new_project) ''allowedTools'' = Inr (JArr (map JStr safe_tools))
   \<and> length (map JStr safe_tools) = 9"
  using standard_update_creates_both [of "[(''projects'', JObj [])]" "[]"]
  by (simp add: tool_list_def)

text \<open>
  C4. When the standard loop runs to completion, a fixed path that had a record keeps
  every field of it other than \<^verbatim>\<open>allowedTools\<close>, \<^verbatim>\<open>hasTrustDialogAccepted\<close> and
  \<^verbatim>\<open>hasClaudeMdExternalIncludesApproved\<close>; the entries of \<^verbatim>\<open>projects\<close> at other paths
  and the top-level keys other than \<^verbatim>\<open>projects\<close> read as before.
\<close>

theorem standard_update_frame:
  assumes "standard_update config = Inr c'"
  shows "((p = instance1_path \<or> p = instance2_path) \<and> project config p = Inr r
          \<and> f \<noteq> ''allowedTools'' \<and> f \<noteq> ''hasTrustDialogAccepted''
          \<and> f \<noteq> ''hasClaudeMdExternalIncludesApproved''
          \<longrightarrow> project_field c' p f = project_field config p f)
       \<and> (q \<noteq> instance1_path \<and> q \<noteq> instance2_path \<longrightarrow> project c' q = project config q)
       \<and> (k \<noteq> ''projects'' \<longrightarrow> getitem c' k = getitem config k)"
  using standard_update_keeps_fields [OF assms, of p r f]
    standard_update_other_project [OF assms, of q]
    standard_update_other_key [OF assms, of k]
  by blast

theorem standard_update_frame_witness:
  "standard_update sample_config = Inr sample_after_standard
   \<and> project_field sample_after_standard instance1_path ''history''
       = project_field sample_config instance1_path ''history''
   \<and> project_field sample_config instance1_path ''history'' = Inr (JArr [JStr ''ls''])
   \<and> project sample_after_standard ''/tmp/other'' = project sample_config ''/tmp/other''
   \<and> project sample_config ''/tmp/other'' = Inr (JObj [(''allowedTools'', JArr [])])
   \<and> getitem sample_after_standard ''numStartups'' = getitem sample_config ''numStartups''
   \<and> getitem sample_config ''numStartups'' = Inr (JInt 3)"
proof -
  have a: "''/tmp/other'' \<noteq> instance1_path" "''/tmp/other'' \<noteq> instance2_path"
    by (simp_all add: instance1_path_def instance2_path_def)
  have b: "project_field sample_config instance1_path ''history'' = Inr (JArr [JStr ''ls''])"
    "project sample_config ''/tmp/other'' = Inr (JObj [(''allowedTools'', JArr [])])"
    "getitem sample_config ''numStartups'' = Inr (JInt 3)"
    by (simp_all add: project_field_def project_def sample_config_def instance1_path_def)
  show ?thesis
    using standard_update_frame [OF standard_update_sample, of instance1_path _ "''history''"
        "''/tmp/other''" "''numStartups''"] project_sample(1) a b standard_update_sample
    by simp
qed

text \<open>
  C5. The standard loop is idempotent: run on its own result, it returns that result.
\<close>

theorem standard_update_idempotent:
  assumes "standard_update config = Inr c'"
  shows "standard_update c' = Inr c'"
proof -
  have "standard_step c' instance1_path = Inr c'"
    using standard_update_sets [OF assms, of instance1_path] by (simp add: standard_step_fixpoint)
  moreover have "standard_step c' instance2_path = Inr c'"
    using standard_update_sets [OF assms, of instance2_path] by (simp add: standard_step_fixpoint)
  ultimately show ?thesis by (simp add: standard_update_def)
qed

theorem standard_update_idempotent_witness:
  "standard_update sample_config = Inr sample_after_standard
   \<and> standard_update sample_after_standard = Inr sample_after_standard"
  using standard_update_idempotent [OF standard_update_sample] standard_update_sample
  by simp

text \<open>
  C10. When a fixed path's record has \<^verbatim>\<open>autoApproveAllTools\<close> and \<^verbatim>\<open>yoloMode\<close> set to
  true, the standard loop sets its \<^verbatim>\<open>allowedTools\<close> to the standard list of 9 names and
  leaves both flags true.
\<close>

theorem standard_update_keeps_yolo_flags:
  assumes "standard_update config = Inr c'"
    and "p = instance1_path \<or> p = instance2_path"
    and "project_field config p ''autoApproveAllTools'' = Inr (JBool True)"
    and "project_field config p ''yoloMode'' = Inr (JBool True)"
  shows "project_field c' p ''allowedTools'' = Inr (tool_list safe_tools)
       \<and> length safe_tools = 9
       \<and> project_field c' p ''autoApproveAllTools'' = Inr (JBool True)
       \<and> project_field c' p ''yoloMode'' = Inr (JBool True)"
proof -
  from assms(3) obtain r where r: "project config p = Inr r"
    by (blast dest: project_field_Inr)
  have "project_field c' p ''autoApproveAllTools'' = project_field config p ''autoApproveAllTools''"
    using assms(1,2) r by (rule standard_update_keeps_fields) simp_all
  moreover have "project_field c' p ''yoloMode'' = project_field config p ''yoloMode''"
    using assms(1,2) r by (rule standard_update_keeps_fields) simp_all
  moreover have "length safe_tools = 9" by (simp add: safe_tools_def)
  ultimately show ?thesis
    using standard_update_sets [OF assms(1,2)] assms(3,4) by simp
qed

theorem standard_update_keeps_yolo_flags_witness:
  "yolo_update sample_config = Inr sample_after_yolo
   \<and> standard_update sample_after_yolo = Inr sample_after_both
   \<and> project_field sample_after_yolo instance1_path ''autoApproveAllTools'' = Inr (JBool True)
   \<and> project_field sample_after_yolo instance1_path ''yoloMode'' = Inr (JBool True)
   \<and> project_field sample_after_both instance1_path ''allowedTools'' = Inr (tool_list safe_tools)
   \<and> project_field sample_after_both instance1_path ''autoApproveAllTools'' = Inr (JBool True)
   \<and> project_field sample_after_both instance1_path ''yoloMode'' = Inr (JBool True)"
proof -
  have a: "project_field sample_after_yolo instance1_path ''autoApproveAllTools'' = Inr (JBool True)"
    "project_field sample_after_yolo instance1_path ''yoloMode'' = Inr (JBool True)"
    by (simp_all add: project_field_def project_def sample_after_yolo_def)
  show ?thesis
    using standard_update_keeps_yolo_flags [OF standard_update_sample_after_yolo _ a]
      yolo_update_sample standard_update_sample_after_yolo a
    by simp
qed


lemma yolo_step_skip_obj:
  "map_of cfg ''projects'' = Some (JObj ps) \<Longrightarrow> map_of ps p = None \<Longrightarrow>
   yolo_step (JObj cfg) p = Inr (JObj cfg)"
  by (rule yolo_step_skip [where projects = "JObj ps"]) (simp_all add: key_mem)

lemma yolo_update_completes_one:
  assumes "map_of cfg ''projects'' = Some (JObj ps)"
    and "(p = instance1_path \<and> q = instance2_path) \<or> (p = instance2_path \<and> q = instance1_path)"
    and "map_of ps p = Some (JObj r)" "map_of ps q = None"
  shows "\<exists>c'. yolo_update (JObj cfg) = Inr c'"
  using assms(2)
proof
  assume pq: "p = instance1_path \<and> q = instance2_path"
  let ?ps1 = "dict_set ps instance1_path (JObj
       (dict_set (dict_set (dict_set (dict_set (dict_set r
          ''allowedTools'' (tool_list yolo_tools))
          ''hasTrustDialogAccepted'' (JBool True))
          ''hasClaudeMdExternalIncludesApproved'' (JBool True))
          ''autoApproveAllTools'' (JBool True))
          ''yoloMode'' (JBool True)))"
  let ?cfg1 = "dict_set cfg ''projects'' (JObj ?ps1)"
  have s1: "yolo_step (JObj cfg) instance1_path = Inr (JObj ?cfg1)"
    using assms(1,3) pq by (simp add: yolo_step_present)
  have "map_of ?cfg1 ''projects'' = Some (JObj ?ps1)"
    by (simp add: map_of_dict_set)
  moreover have "map_of ?ps1 instance2_path = None"
    using assms(4) pq instance_paths_distinct by (simp add: map_of_dict_set)
  ultimately have "yolo_step (JObj ?cfg1) instance2_path = Inr (JObj ?cfg1)"
    by (rule yolo_step_skip_obj)
  with s1 show ?thesis by (simp add: yolo_update_def)
next
  assume pq: "p = instance2_path \<and> q = instance1_path"
  have "yolo_step (JObj cfg) instance1_path = Inr (JObj cfg)"
    using assms(1,4) pq by (simp add: yolo_step_skip_obj)
  moreover have "\<exists>c'. yolo_step (JObj cfg) instance2_path = Inr c'"
    using assms(1,3) pq by (simp add: yolo_step_present)
  ultimately show ?thesis by (auto simp: yolo_update_def)
qed

text \<open>
  C3. When exactly one of the two fixed paths has a record in \<^verbatim>\<open>projects\<close>, the
  permissive loop runs to completion, the missing path is still missing, and the record
  that was there has the permissive list of 13 names as \<^verbatim>\<open>allowedTools\<close> and the two trust
  flags, \<^verbatim>\<open>autoApproveAllTools\<close> and \<^verbatim>\<open>yoloMode\<close> set to true.
\<close>

theorem yolo_update_one_present:
  assumes "(p = instance1_path \<and> q = instance2_path) \<or> (p = instance2_path \<and> q = instance1_path)"
    and "project config p = Inr (JObj r)"
    and "project config q = Inl (KeyError q)"
  shows "\<exists>c'. yolo_update config = Inr c'
      \<and> project c' q = Inl (KeyError q)
      \<and> project_field c' p ''allowedTools'' = Inr (tool_list yolo_tools)
      \<and> length yolo_tools = 13
      \<and> project_field c' p ''hasTrustDialogAccepted'' = Inr (JBool True)
      \<and> project_field c' p ''hasClaudeMdExternalIncludesApproved'' = Inr (JBool True)
      \<and> project_field c' p ''autoApproveAllTools'' = Inr (JBool True)
      \<and> project_field c' p ''yoloMode'' = Inr (JBool True)"
proof -
  from assms(2) obtain cfg ps where shape: "config = JObj cfg"
    "map_of cfg ''projects'' = Some (JObj ps)" "map_of ps p = Some (JObj r)"
    by (blast dest: project_Inr)
  from assms(3) shape(1,2) have absent: "map_of ps q = None"
    by (cases "map_of ps q") (simp_all add: project_def)
  from shape(2) assms(1) shape(3) absent obtain c' where run: "yolo_update config = Inr c'"
    unfolding shape(1) by (blast dest: yolo_update_completes_one)
  have pp: "p = instance1_path \<or> p = instance2_path" and qq: "q = instance1_path \<or> q = instance2_path"
    using assms(1) by auto
  have "project c' q = Inl (KeyError q)"
    using run qq assms(3) by (rule yolo_update_absent)
  moreover have "length yolo_tools = 13" by (simp add: yolo_tools_def)
  ultimately show ?thesis
    using run yolo_update_sets [OF run pp assms(2)] by simp
qed

theorem yolo_update_one_present_witness:
  "project sample_config instance1_path = Inr (JObj
      [(''allowedTools'', JArr [JStr ''bash'']),
       (''history'', JArr [JStr ''ls'']),
       (''hasTrustDialogAccepted'', JBool False)])
   \<and> project sample_config instance2_path = Inl (KeyError instance2_path)
   \<and> (\<exists>c'. yolo_update sample_config = Inr c'
      \<and> project c' instance2_path = Inl (KeyError instance2_path)
      \<and> project_field c' instance1_path ''allowedTools'' = Inr (tool_list yolo_tools)
      \<and> project_field c' instance1_path ''autoApproveAllTools'' = Inr (JBool True)
      \<and> project_field c' instance1_path ''yoloMode'' = Inr (JBool True))"
  using yolo_update_one_present [OF _ project_sample] project_sample
  by auto

lemma yolo_update_skips:
  assumes "getitem config ''projects'' = Inr projects"
    and "contains projects instance1_path = Inr False"
    and "contains projects instance2_path = Inr False"
  shows "yolo_update config = Inr config"
  using assms by (simp add: yolo_update_def yolo_step_skip)

text \<open>
  C9. When \<^verbatim>\<open>projects\<close> contains neither fixed path, the permissive loop returns the
  configuration as it was, and the script writes the serialization of the configuration
  it loaded.
\<close>

theorem yolo_update_identity:
  assumes "getitem config ''projects'' = Inr projects"
    and "contains projects instance1_path = Inr False"
    and "contains projects instance2_path = Inr False"
  shows "yolo_update config = Inr config
     \<and> (fs (config_path env) = Some text \<and> json_load env text = Some config \<longrightarrow>
          fst (setup_yolo_mode env fs) = None
        \<and> snd (setup_yolo_mode env fs) (config_path env) = Some (json_dump env config))"
  using yolo_update_skips [OF assms]
    patch_script_completes [of fs env "text" config yolo_update config "''.yolo-backup''"]
  by (simp add: setup_yolo_mode_def del: append.simps append_Cons)


theorem yolo_update_identity_witness:
  \<open>yolo_update (JObj [(''projects'', JObj [])]) = Inr (JObj [(''projects'', JObj [])])
   \<and> fst (setup_yolo_mode (sample_env ''/Users/deankeesey'')
        [''/Users/deankeesey/.claude.json'' \<mapsto> ''{"projects": {}}'']) = None
   \<and> snd (setup_yolo_mode (sample_env ''/Users/deankeesey'')
        [''/Users/deankeesey/.claude.json'' \<mapsto> ''{"projects": {}}''])
        ''/Users/deankeesey/.claude.json''
      = Some (json_dump (sample_env ''/Users/deankeesey'') (JObj [(''projects'', JObj [])]))\<close>
  using yolo_update_identity [of "JObj [(''projects'', JObj [])]" "JObj []"
      \<open>[''/Users/deankeesey/.claude.json'' \<mapsto> ''{"projects": {}}'']\<close>
      "sample_env ''/Users/deankeesey''" \<open>''{"projects": {}}''\<close>]
  by (simp add: sample_env_simps sample_env_load_projects)

text \<open>
  C7. When the configuration file is missing, or json.load rejects its text, either
  script ends with the exception and the file system is as it was: nothing was updated,
  copied or written.
\<close>

theorem load_failure_leaves_files:
  "(fs (config_path env) = None \<longrightarrow>
      setup_auto_approval env fs = (Some FileNotFoundError, fs)
    \<and> setup_yolo_mode env fs = (Some FileNotFoundError, fs))
   \<and> (fs (config_path env) = Some text \<and> json_load env text = None \<longrightarrow>
      setup_auto_approval env fs = (Some JSONDecodeError, fs)
    \<and> setup_yolo_mode env fs = (Some JSONDecodeError, fs))"
  by (simp add: setup_auto_approval_def setup_yolo_mode_def patch_script_def)

theorem load_failure_leaves_files_witness:
  "setup_auto_approval (sample_env ''/Users/deankeesey'') Map.empty
     = (Some FileNotFoundError, Map.empty)
   \<and> setup_yolo_mode (sample_env ''/Users/deankeesey'') Map.empty
     = (Some FileNotFoundError, Map.empty)
   \<and> setup_auto_approval (sample_env ''/Users/deankeesey'')
       [''/Users/deankeesey/.claude.json'' \<mapsto> ''not json'']
     = (Some JSONDecodeError, [''/Users/deankeesey/.claude.json'' \<mapsto> ''not json''])
   \<and> setup_yolo_mode (sample_env ''/Users/deankeesey'')
       [''/Users/deankeesey/.claude.json'' \<mapsto> ''not json'']
     = (Some JSONDecodeError, [''/Users/deankeesey/.claude.json'' \<mapsto> ''not json''])"
  using load_failure_leaves_files [of Map.empty "sample_env ''/Users/deankeesey''"]
    load_failure_leaves_files [of "[''/Users/deankeesey/.claude.json'' \<mapsto> ''not json'']"
      "sample_env ''/Users/deankeesey''" "''not json''"]
  by (simp add: sample_env_simps)

text \<open>
  C8. When the file holds a JSON object without a \<^verbatim>\<open>projects\<close> key, either script ends
  with \<^verbatim>\<open>KeyError\<close> at the first \<^verbatim>\<open>config["projects"]\<close>, before the copy and the write, and
  the file system is as it was.
\<close>

theorem missing_projects_key_raises:
  assumes "fs (config_path env) = Some text"
    and "json_load env text = Some (JObj cfg)"
    and "''projects'' \<notin> fst ` set cfg"
  shows "setup_auto_approval env fs = (Some (KeyError ''projects''), fs)
       \<and> setup_yolo_mode env fs = (Some (KeyError ''projects''), fs)"
proof -
  have "map_of cfg ''projects'' = None"
    using assms(3) by (simp add: map_of_eq_None_iff)
  then have "standard_update (JObj cfg) = Inl (KeyError ''projects'')"
    and "yolo_update (JObj cfg) = Inl (KeyError ''projects'')"
    by (simp_all add: standard_update_def standard_step_def yolo_update_def yolo_step_def)
  with assms(1,2) show ?thesis
    by (simp add: setup_auto_approval_def setup_yolo_mode_def patch_script_raises)
qed

theorem missing_projects_key_raises_witness:
  "setup_auto_approval (sample_env ''/Users/deankeesey'')
       [''/Users/deankeesey/.claude.json'' \<mapsto> ''{}'']
     = (Some (KeyError ''projects''), [''/Users/deankeesey/.claude.json'' \<mapsto> ''{}''])
   \<and> setup_yolo_mode (sample_env ''/Users/deankeesey'')
       [''/Users/deankeesey/.claude.json'' \<mapsto> ''{}'']
     = (Some (KeyError ''projects''), [''/Users/deankeesey/.claude.json'' \<mapsto> ''{}''])"
  using missing_projects_key_raises [of "[''/Users/deankeesey/.claude.json'' \<mapsto> ''{}'']"
      "sample_env ''/Users/deankeesey''" "''{}''" "[]"]
  by (simp add: sample_env_simps)

text \<open>
  With a home directory of literal characters the copy is taken from the file as it was
  before the run, replaces any backup of that name, and the new configuration is written
  after it.
\<close>

lemma backup_taken_before_write:
  assumes "shell_literal (home env)"
    and "fs (config_path env) = Some text" "json_load env text = Some config"
  shows "standard_update config = Inr c1 \<Longrightarrow>
      setup_auto_approval env fs =
        (None, fs(config_path env @ ''.backup'' \<mapsto> text, config_path env \<mapsto> json_dump env c1))"
    and "yolo_update config = Inr c2 \<Longrightarrow>
      setup_yolo_mode env fs =
        (None, fs(config_path env @ ''.yolo-backup'' \<mapsto> text, config_path env \<mapsto> json_dump env c2))"
  using assms shell_literal_no_space [OF assms(1)]
  by (simp_all add: setup_auto_approval_def setup_yolo_mode_def patch_script_backup)

lemma cp_fails_john_smith:
  "os_system (''cp '' @ ''/Users/John Smith/.claude.json'' @ '' ''
      @ ''/Users/John Smith/.claude.json'' @ ''.backup'') fs = fs"
  "os_system (''cp '' @ ''/Users/John Smith/.claude.json'' @ '' ''
      @ ''/Users/John Smith/.claude.json'' @ ''.yolo-backup'') fs = fs"
  by (simp_all add: os_system_def sh_def cp_def)

text \<open>
  C6, at an input where the code does not do what the claim says. The home directory
  \<^verbatim>\<open>/Users/John Smith\<close> has a space; the scripts put the path into the command line
  without quotes, so \<^verbatim>\<open>cp\<close> gets four operands and copies nothing; \<^verbatim>\<open>os.system\<close> returns a
  status that the scripts do not look at. The run completes, the configuration is
  overwritten, and no other file has changed: there is no backup of this run.
\<close>

theorem backup_lost_when_home_has_space:
  assumes "home env = ''/Users/John Smith''"
    and "fs (config_path env) = Some text" "json_load env text = Some config"
  shows "(standard_update config = Inr c1 \<longrightarrow>
            setup_auto_approval env fs = (None, fs(config_path env \<mapsto> json_dump env c1)))
       \<and> (yolo_update config = Inr c2 \<longrightarrow>
            setup_yolo_mode env fs = (None, fs(config_path env \<mapsto> json_dump env c2)))"
proof -
  have p: "config_path env = ''/Users/John Smith/.claude.json''"
    using assms(1) by (simp add: config_path_def)
  show ?thesis
    using assms(2,3) cp_fails_john_smith [of fs]
    by (simp add: setup_auto_approval_def setup_yolo_mode_def patch_script_completes p
        del: append.simps append_Cons)
qed

theorem backup_lost_when_home_has_space_witness:
  \<open>fst (setup_auto_approval (sample_env ''/Users/John Smith'')
      [''/Users/John Smith/.claude.json'' \<mapsto> ''{"projects": {}}'']) = None
   \<and> snd (setup_auto_approval (sample_env ''/Users/John Smith'')
      [''/Users/John Smith/.claude.json'' \<mapsto> ''{"projects": {}}''])
      ''/Users/John Smith/.claude.json.backup'' = None
   \<and> fst (setup_yolo_mode (sample_env ''/Users/John Smith'')
      [''/Users/John Smith/.claude.json'' \<mapsto> ''{"projects": {}}'']) = None
   \<and> snd (setup_yolo_mode (sample_env ''/Users/John Smith'')
      [''/Users/John Smith/.claude.json'' \<mapsto> ''{"projects": {}}''])
      ''/Users/John Smith/.claude.json.yolo-backup'' = None\<close>
proof -
  have s: "standard_update (JObj [(''projects'', JObj [])]) =
     Inr (JObj [(''projects'', JObj
       [(instance1_path, JObj new_project), (instance2_path, JObj new_project)])])"
    using standard_update_absent_both [of "[(''projects'', JObj [])]" "[]"] by simp
  have y: "yolo_update (JObj [(''projects'', JObj [])]) = Inr (JObj [(''projects'', JObj [])])"
    by (simp add: yolo_update_def yolo_step_def)
  show ?thesis
    using backup_lost_when_home_has_space [of "sample_env ''/Users/John Smith''"
        \<open>[''/Users/John Smith/.claude.json'' \<mapsto> ''{"projects": {}}'']\<close>
        \<open>''{"projects": {}}''\<close> "JObj [(''projects'', JObj [])]"
        "JObj [(''projects'', JObj
           [(instance1_path, JObj new_project), (instance2_path, JObj new_project)])]"
        "JObj [(''projects'', JObj [])]"] s y
    by (simp add: sample_env_simps sample_env_load_projects)
qed

end
